theory Spec2Isabelle
  imports Main "HOL-Library.Word"
begin

text \<open>
  A shallow embedding of the two kernel modules of the repository:
  \<^item> \<open>i2c_driver.c\<close> (module version 1.50): the SSD1306 display and the AHT20 sensor,
    both driven from their probe callbacks;
  \<^item> \<open>i2c_client_driver.c\<close> (module version 2.0): the same two devices behind two
    character devices with \<open>ioctl\<close> requests.
  Both files define \<open>aht20_probe\<close>; the one of version 2.0 is \<open>aht20_probe_v2\<close> here.
\<close>

unbundle bit_operations_syntax

section \<open>Machine types\<close>

text \<open>
  \<open>unsigned char\<close> and \<open>u8\<close> are 8-bit words, \<open>u32\<close> and \<open>unsigned int\<close> 32-bit
  words. A C \<open>int\<close> is kept as a 32-bit word as well and read through \<open>sint\<close>.
\<close>

type_synonym u8 = "8 word"
type_synonym u32 = "32 word"
type_synonym s32 = "32 word"

section \<open>AHT20 raw fields and scaling\<close>

text \<open>
  The four expressions of \<open>AHT20_ReadData\<close> (i2c_driver.c, lines 154 to 158), which
  \<open>aht20_read_raw\<close> and \<open>aht20_ioctl\<close> (i2c_client_driver.c, lines 114, 115, 131, 132)
  repeat token for token. A byte operand is promoted to \<open>int\<close> before the shift; every
  intermediate value is below \<open>2 ^ 20\<close>, so the promoted value is the zero-extended
  32-bit word. The products, the quotients and the subtraction are unsigned 32-bit;
  the assignment to an \<open>int\<close> keeps the bit pattern.
\<close>

definition raw_humidity :: "u8 list \<Rightarrow> u32" where
  "raw_humidity d =
     (push_bit 12 (ucast (d ! 1)) OR push_bit 4 (ucast (d ! 2)) OR drop_bit 4 (ucast (d ! 3)))"

definition raw_temperature :: "u8 list \<Rightarrow> u32" where
  "raw_temperature d =
     (push_bit 16 (ucast (d ! 3) AND 0x0F) OR push_bit 8 (ucast (d ! 4)) OR ucast (d ! 5))"

definition scale_humidity :: "u32 \<Rightarrow> s32" where
  "scale_humidity rh = (rh * 1000) div 1048576"

definition scale_temperature :: "u32 \<Rightarrow> s32" where
  "scale_temperature rt = ((rt * 2000) div 1048576) - 500"

text \<open>
  The decoding of one 6-byte measurement as \<open>AHT20_ReadData\<close> performs it after the
  read: the pair (temperature, humidity) stored through its two result pointers.
\<close>

definition decode :: "u8 list \<Rightarrow> s32 \<times> s32" where
  "decode d = (scale_temperature (raw_temperature d), scale_humidity (raw_humidity d))"

section \<open>The kernel as environment\<close>

text \<open>
  A pointer is \<open>NULL\<close>, an error pointer (\<open>ERR_PTR\<close> of a negative errno) or a valid
  object. \<open>IS_ERR\<close> holds for the errno range of \<open>include/linux/err.h\<close>. The
  drivers apply \<open>PTR_ERR\<close> to error pointers only.
\<close>

datatype 'a ptr = NULL | ERR_PTR int | Ptr 'a

definition IS_ERR :: "'a ptr \<Rightarrow> bool" where
  "IS_ERR p = (case p of ERR_PTR e \<Rightarrow> - 4095 \<le> e \<and> e < 0 | _ \<Rightarrow> False)"

definition PTR_ERR :: "'a ptr \<Rightarrow> int" where
  "PTR_ERR p = (case p of ERR_PTR e \<Rightarrow> e | _ \<Rightarrow> 0)"

definition EFAULT :: int where "EFAULT = 14"
definition ENODEV :: int where "ENODEV = 19"
definition EINVAL :: int where "EINVAL = 22"

record i2c_board_info =
  type_name :: string
  addr :: nat

definition I2C_BOARD_INFO :: "string \<Rightarrow> nat \<Rightarrow> i2c_board_info" where
  "I2C_BOARD_INFO dev_type dev_addr = \<lparr>type_name = dev_type, addr = dev_addr\<rparr>"

record i2c_client =
  client_name :: string
  client_addr :: nat

datatype level = KERN_ALERT | KERN_ERR | KERN_INFO

text \<open>
  Every call the drivers make into the kernel is recorded, in order. A message is
  recorded with its level and its format string (without the final newline); the
  values formatted into it are not recorded.
\<close>

datatype event =
    Msleep nat
  | Master_send "i2c_client ptr" "u8 list"
  | Master_recv "i2c_client ptr" nat
  | Printk level string
  | Get_adapter nat
  | Put_adapter "nat ptr"
  | New_client_device "nat ptr" i2c_board_info
  | Add_driver string
  | Alloc_chrdev_region string
  | Cdev_init string
  | Cdev_add string

text \<open>\<open>struct aht20_data\<close> of i2c_client_driver.c: two \<open>int\<close> fields.\<close>

record aht20_data =
  temperature :: s32
  humidity :: s32

text \<open>
  The state of the kernel around the driver. What the hardware and the I2C core answer
  is not decided by the driver, so it is a parameter of the state:
  \<^item> \<open>xfer w n\<close> is the answer to the bus transfer issued when \<open>n\<close> events are
    recorded: the return value (a negative errno, or the number of bytes moved) and, for
    a receive, the content of the caller's buffer when the call returns, byte by
    index. Both callers pass an uninitialised local array, so after a failed receive
    that content is whatever the stack held;
  \<^item> \<open>adapter_at w n\<close> says whether bus \<open>n\<close> has an adapter;
  \<^item> \<open>new_client_err w a\<close> is the errno with which the creation of a client device
    at address \<open>a\<close> fails, if it fails;
  \<^item> \<open>user_writable w p\<close> says whether user address \<open>p\<close> can be written.
  \<open>devices\<close> are the client devices created so far, \<open>bound\<close> those whose probe
  returned 0, and \<open>user_mem\<close> what has been copied to user space.
\<close>

record world =
  trace :: "event list"
  xfer :: "nat \<Rightarrow> int \<times> (nat \<Rightarrow> u8)"
  adapter_at :: "nat \<Rightarrow> bool"
  new_client_err :: "nat \<Rightarrow> int option"
  user_writable :: "nat \<Rightarrow> bool"
  devices :: "i2c_client list"
  bound :: "i2c_client list"
  user_mem :: "nat \<Rightarrow> aht20_data option"

definition emit :: "event \<Rightarrow> 'a world_scheme \<Rightarrow> 'a world_scheme" where
  "emit e w = w\<lparr>trace := trace w @ [e]\<rparr>"

definition msleep :: "nat \<Rightarrow> 'a world_scheme \<Rightarrow> 'a world_scheme" where
  "msleep ms w = emit (Msleep ms) w"

definition printk :: "level \<Rightarrow> string \<Rightarrow> 'a world_scheme \<Rightarrow> 'a world_scheme" where
  "printk l fmt w = emit (Printk l fmt) w"

definition pr_info :: "string \<Rightarrow> 'a world_scheme \<Rightarrow> 'a world_scheme" where
  "pr_info fmt w = printk KERN_INFO fmt w"

definition pr_err :: "string \<Rightarrow> 'a world_scheme \<Rightarrow> 'a world_scheme" where
  "pr_err fmt w = printk KERN_ERR fmt w"

text \<open>
  \<open>i2c_master_send\<close> and \<open>i2c_master_recv\<close>: one bus transfer each. The handle passed
  is recorded as it is; the kernel dereferences it, so a call with a handle that is not
  valid faults there, which the drivers avoid by setting the handle before any transfer.
\<close>

definition i2c_master_send ::
  "i2c_client ptr \<Rightarrow> u8 list \<Rightarrow> nat \<Rightarrow> 'a world_scheme \<Rightarrow> int \<times> 'a world_scheme" where
  "i2c_master_send client buf count w =
     (fst (xfer w (length (trace w))), emit (Master_send client (take count buf)) w)"

definition i2c_master_recv ::
  "i2c_client ptr \<Rightarrow> nat \<Rightarrow> 'a world_scheme \<Rightarrow> int \<times> u8 list \<times> 'a world_scheme" where
  "i2c_master_recv client count w =
     (fst (xfer w (length (trace w))), map (snd (xfer w (length (trace w)))) [0..<count],
      emit (Master_recv client count) w)"

definition i2c_get_adapter :: "nat \<Rightarrow> 'a world_scheme \<Rightarrow> nat ptr \<times> 'a world_scheme" where
  "i2c_get_adapter nr w = (if adapter_at w nr then Ptr nr else NULL, emit (Get_adapter nr) w)"

definition i2c_put_adapter :: "nat ptr \<Rightarrow> 'a world_scheme \<Rightarrow> 'a world_scheme" where
  "i2c_put_adapter adap w = emit (Put_adapter adap) w"

definition i2c_new_client_device ::
  "nat ptr \<Rightarrow> i2c_board_info \<Rightarrow> 'a world_scheme \<Rightarrow> i2c_client ptr \<times> 'a world_scheme" where
  "i2c_new_client_device adap info w =
     (let w = emit (New_client_device adap info) w in
      case new_client_err w (addr info) of
        Some e \<Rightarrow> (ERR_PTR e, w)
      | None \<Rightarrow>
          (let client = \<lparr>client_name = type_name info, client_addr = addr info\<rparr>
           in (Ptr client, w\<lparr>devices := devices w @ [client]\<rparr>)))"

text \<open>
  \<open>i2c_add_driver\<close> registers the driver; the I2C core then calls its probe for each
  client device created so far whose name is in the driver's id table and which is not
  bound yet, and binds the device when the probe returns 0. Each driver here has one
  name in its table. The drivers ignore the result of \<open>i2c_add_driver\<close>.
\<close>

fun driver_attach ::
  "(i2c_client \<Rightarrow> 'a world_scheme \<Rightarrow> int \<times> 'a world_scheme) \<Rightarrow> i2c_client list \<Rightarrow>
   'a world_scheme \<Rightarrow> 'a world_scheme" where
  "driver_attach probe [] w = w"
| "driver_attach probe (c # cs) w =
     (let (r, w) = probe c w;
          w = (if r = 0 then w\<lparr>bound := bound w @ [c]\<rparr> else w)
      in driver_attach probe cs w)"

definition i2c_add_driver ::
  "string \<Rightarrow> (i2c_client \<Rightarrow> 'a world_scheme \<Rightarrow> int \<times> 'a world_scheme) \<Rightarrow>
   'a world_scheme \<Rightarrow> int \<times> 'a world_scheme" where
  "i2c_add_driver id_name probe w =
     (let w = emit (Add_driver id_name) w
      in (0, driver_attach probe
               [c \<leftarrow> devices w. client_name c = id_name \<and> c \<notin> set (bound w)] w))"

text \<open>
  \<open>copy_to_user\<close> returns the number of bytes it could not copy: 0, or all 8 bytes of
  the structure when the destination is not writable.
\<close>

definition copy_to_user :: "nat \<Rightarrow> aht20_data \<Rightarrow> 'a world_scheme \<Rightarrow> nat \<times> 'a world_scheme" where
  "copy_to_user to data w =
     (if user_writable w to then (0, w\<lparr>user_mem := (user_mem w)(to \<mapsto> data)\<rparr>) else (8, w))"

section \<open>i2c_driver.c\<close>

record drv = world +
  etx_i2c_adapter :: "nat ptr"
  etx_i2c_client_oled :: "i2c_client ptr"
  etx_i2c_client_aht :: "i2c_client ptr"
  select_device :: int

definition I2C_BUS_AVAILABLE :: nat where "I2C_BUS_AVAILABLE = 1"
definition SLAVE_DEVICE_NAME :: string where "SLAVE_DEVICE_NAME = ''ETX_OLED''"
definition SSD1306_SLAVE_ADDR :: nat where "SSD1306_SLAVE_ADDR = 0x3C"
definition AHT20_DEVICE_NAME :: string where "AHT20_DEVICE_NAME = ''AHT20_SENSOR''"
definition AHT20_SLAVE_ADDR :: nat where "AHT20_SLAVE_ADDR = 0x38"

definition oled_i2c_board_info :: i2c_board_info where
  "oled_i2c_board_info = I2C_BOARD_INFO SLAVE_DEVICE_NAME SSD1306_SLAVE_ADDR"

definition aht20_i2c_board_info :: i2c_board_info where
  "aht20_i2c_board_info = I2C_BOARD_INFO AHT20_DEVICE_NAME AHT20_SLAVE_ADDR"

subsection \<open>Display\<close>

definition I2C_Write :: "u8 list \<Rightarrow> nat \<Rightarrow> drv \<Rightarrow> int \<times> drv" where
  "I2C_Write buf len s = (let (ret, s) = i2c_master_send (etx_i2c_client_oled s) buf len s in (ret, s))"

text \<open>\<open>SSD1306_Write\<close> returns \<open>void\<close>: the result of \<open>I2C_Write\<close> is dropped.\<close>

definition SSD1306_Write :: "bool \<Rightarrow> u8 \<Rightarrow> drv \<Rightarrow> drv" where
  "SSD1306_Write is_cmd data s =
     (let buf = [if is_cmd then 0x00 else 0x40, data];
          (_, s) = I2C_Write buf 2 s
      in s)"

definition SSD1306_DisplayInit :: "drv \<Rightarrow> drv" where
  "SSD1306_DisplayInit s =
     (let s = msleep 100 s;
          s = SSD1306_Write True 0xAE s;
          s = SSD1306_Write True 0xD5 s;
          s = SSD1306_Write True 0x80 s;
          s = SSD1306_Write True 0xA8 s;
          s = SSD1306_Write True 0x3F s;
          s = SSD1306_Write True 0xD3 s;
          s = SSD1306_Write True 0x00 s;
          s = SSD1306_Write True 0x40 s;
          s = SSD1306_Write True 0x8D s;
          s = SSD1306_Write True 0x14 s;
          s = SSD1306_Write True 0x20 s;
          s = SSD1306_Write True 0x00 s;
          s = SSD1306_Write True 0xA1 s;
          s = SSD1306_Write True 0xC8 s;
          s = SSD1306_Write True 0xDA s;
          s = SSD1306_Write True 0x12 s;
          s = SSD1306_Write True 0x81 s;
          s = SSD1306_Write True 0x80 s;
          s = SSD1306_Write True 0xD9 s;
          s = SSD1306_Write True 0xF1 s;
          s = SSD1306_Write True 0xDB s;
          s = SSD1306_Write True 0x20 s;
          s = SSD1306_Write True 0xA4 s;
          s = SSD1306_Write True 0xA6 s;
          s = SSD1306_Write True 0x2E s;
          s = SSD1306_Write True 0xAF s
      in s)"

text \<open>
  The loop \<open>for (i = 0; i < total; i++)\<close> of \<open>SSD1306_Fill\<close>. The counter stays at or
  below \<open>total = 1024\<close> (\<open>tot\<close> here), far from the wrap-around of an
  \<open>unsigned int\<close>, so it is a natural number.
\<close>

function SSD1306_Fill_loop :: "nat \<Rightarrow> nat \<Rightarrow> u8 \<Rightarrow> drv \<Rightarrow> drv" where
  "SSD1306_Fill_loop i tot data s =
     (if i < tot then SSD1306_Fill_loop (i + 1) tot data (SSD1306_Write False data s) else s)"
  by pat_completeness auto
termination
  by (relation "measure (\<lambda>(i, tot, data, s). tot - i)") auto

declare SSD1306_Fill_loop.simps [simp del]

definition SSD1306_Fill :: "u8 \<Rightarrow> drv \<Rightarrow> drv" where
  "SSD1306_Fill data s = (let tot = 128 * 8 in SSD1306_Fill_loop 0 tot data s)"

definition etx_oled_probe :: "i2c_client \<Rightarrow> drv \<Rightarrow> int \<times> drv" where
  "etx_oled_probe client s =
     (let s = s\<lparr>etx_i2c_client_oled := Ptr client\<rparr>;
          s = pr_info ''ETX_OLED: Device probed successfully'' s;
          s = SSD1306_DisplayInit s;
          s = SSD1306_Fill 0xFF s
      in (0, s))"

definition etx_oled_remove :: "i2c_client \<Rightarrow> drv \<Rightarrow> drv" where
  "etx_oled_remove client s =
     (let s = SSD1306_Fill 0x00 s;
          s = pr_info ''ETX_OLED: Device removed'' s
      in s)"

subsection \<open>Sensor\<close>

definition AHT20_Init :: "drv \<Rightarrow> int \<times> drv" where
  "AHT20_Init s =
     (let cmd = [0xBE, 0x08, 0x00];
          (ret, s) = i2c_master_send (etx_i2c_client_aht s) cmd 3 s;
          s = (if ret < 0 then pr_err ''AHT20: Initialization failed'' s
               else pr_info ''AHT20: Initialized successfully'' s);
          s = msleep 40 s
      in (ret, s))"

text \<open>
  \<open>AHT20_ReadData\<close> returns a negative errno and leaves its two result pointers
  untouched (\<open>Inl\<close>), or returns 0 after storing temperature and humidity (\<open>Inr\<close>). The
  degree sign of its message is the two bytes of its UTF-8 encoding.
\<close>

definition AHT20_ReadData :: "drv \<Rightarrow> (int + s32 \<times> s32) \<times> drv" where
  "AHT20_ReadData s =
     (let trigger_cmd = [0xAC, 0x33, 0x00];
          (ret, s) = i2c_master_send (etx_i2c_client_aht s) trigger_cmd 3 s
      in if ret < 0 then (Inl ret, pr_err ''AHT20: Trigger measurement failed'' s)
         else
           (let s = msleep 80 s;
                (ret, data, s) = i2c_master_recv (etx_i2c_client_aht s) 6 s
            in if ret < 0 then (Inl ret, pr_err ''AHT20: Data read failed'' s)
               else
                 (let raw_hum = raw_humidity data;
                      raw_temp = raw_temperature data;
                      hum = scale_humidity raw_hum;
                      temp = scale_temperature raw_temp;
                      s = pr_info (''AHT20: Temp = %d.%d'' @ [CHR 0xC2, CHR 0xB0] @
                                   ''C, RH = %d.%d%%'') s
                  in (Inr (temp, hum), s))))"

definition aht20_probe :: "i2c_client \<Rightarrow> drv \<Rightarrow> int \<times> drv" where
  "aht20_probe client s =
     (let s = s\<lparr>etx_i2c_client_aht := Ptr client\<rparr>;
          s = pr_info ''AHT20: Device probed successfully'' s;
          (_, s) = AHT20_Init s;
          (_, s) = AHT20_ReadData s
      in (0, s))"

subsection \<open>Module initialisation\<close>

definition etx_driver_init :: "drv \<Rightarrow> int \<times> drv" where
  "etx_driver_init s =
     (let s = pr_info ''ETX_I2C: Module init started (select_device = %d)'' s;
          s = printk KERN_INFO ''ETX_I2C: Selected device = %d'' s;
          (adap, s) = i2c_get_adapter I2C_BUS_AVAILABLE s;
          s = s\<lparr>etx_i2c_adapter := adap\<rparr>
      in if etx_i2c_adapter s = NULL
         then (- ENODEV, pr_err ''ETX_I2C: Cannot get I2C adapter %d'' s)
         else
           (let s = (if select_device s = 0 \<or> select_device s = 1
                     then (let (client_oled, s) =
                                  i2c_new_client_device (etx_i2c_adapter s) oled_i2c_board_info s
                           in if IS_ERR client_oled
                              then pr_err ''ETX_OLED: Failed to register OLED device'' s
                              else (let s = s\<lparr>etx_i2c_client_oled := client_oled\<rparr>;
                                        (_, s) = i2c_add_driver SLAVE_DEVICE_NAME etx_oled_probe s;
                                        s = pr_info ''ETX_OLED: Driver added'' s
                                    in s))
                     else s);
                s = (if select_device s = 0 \<or> select_device s = 2
                     then (let (client_aht, s) =
                                  i2c_new_client_device (etx_i2c_adapter s) aht20_i2c_board_info s
                           in if IS_ERR client_aht
                              then pr_err ''AHT20: Failed to register AHT20 device'' s
                              else (let s = s\<lparr>etx_i2c_client_aht := client_aht\<rparr>;
                                        (_, s) = i2c_add_driver AHT20_DEVICE_NAME aht20_probe s;
                                        s = pr_info ''AHT20: Driver added'' s
                                    in s))
                     else s);
                s = i2c_put_adapter (etx_i2c_adapter s) s;
                s = printk KERN_ALERT ''ETX_I2C: Module loaded and visible on console!'' s
            in (0, s)))"

section \<open>i2c_client_driver.c\<close>

record drv_v2 = world +
  i2c_adap :: "nat ptr"
  oled_client :: "i2c_client ptr"
  aht20_client :: "i2c_client ptr"

definition SSD1306_ADDR :: nat where "SSD1306_ADDR = 0x3C"
definition AHT20_ADDR :: nat where "AHT20_ADDR = 0x38"
definition OLED_DEV_NAME :: string where "OLED_DEV_NAME = ''etx_oled''"
definition AHT20_DEV_NAME :: string where "AHT20_DEV_NAME = ''etx_aht20''"

text \<open>
  The request codes are built by the kernel's \<open>_IO\<close> and \<open>_IOR\<close> macros. Their layout
  is the one of \<open>include/uapi/asm-generic/ioctl.h\<close>: number in bits 0 to 7, type
  character in bits 8 to 15, argument size in bits 16 to 29, direction in bits 30 and
  31 (none is 0, read is 2). \<open>'o'\<close> is 0x6F, \<open>'a'\<close> is 0x61, and
  \<open>struct aht20_data\<close> has 8 bytes.
\<close>

definition IOC :: "u32 \<Rightarrow> u32 \<Rightarrow> u32 \<Rightarrow> u32 \<Rightarrow> u32" where
  "IOC dir ty nr sz = (push_bit 30 dir OR push_bit 8 ty OR nr OR push_bit 16 sz)"

definition OLED_CLEAR :: u32 where "OLED_CLEAR = IOC 0 0x6F 1 0"
definition OLED_FILL :: u32 where "OLED_FILL = IOC 0 0x6F 2 0"
definition AHT20_READ_DATA :: u32 where "AHT20_READ_DATA = IOC 2 0x61 1 8"

subsection \<open>Display\<close>

text \<open>\<open>oled_write\<close> returns \<open>void\<close>: the result of \<open>i2c_master_send\<close> is dropped.\<close>

definition oled_write :: "u8 \<Rightarrow> u8 \<Rightarrow> drv_v2 \<Rightarrow> drv_v2" where
  "oled_write mode data s =
     (let buf = [mode, data];
          (_, s) = i2c_master_send (oled_client s) buf 2 s
      in s)"

definition oled_init :: "drv_v2 \<Rightarrow> drv_v2" where
  "oled_init s =
     (let s = msleep 100 s;
          s = oled_write 0x00 0xAE s;
          s = oled_write 0x00 0xA8 s;
          s = oled_write 0x00 0x3F s;
          s = oled_write 0x00 0xAF s
      in s)"

text \<open>The loops \<open>for (i = 0; i < 1024; i++)\<close> of \<open>oled_clear\<close> and \<open>oled_fill\<close>.\<close>

function oled_clear_loop :: "nat \<Rightarrow> drv_v2 \<Rightarrow> drv_v2" where
  "oled_clear_loop i s = (if i < 1024 then oled_clear_loop (i + 1) (oled_write 0x40 0x00 s) else s)"
  by pat_completeness auto
termination
  by (relation "measure (\<lambda>(i, s). 1024 - i)") auto

declare oled_clear_loop.simps [simp del]

definition oled_clear :: "drv_v2 \<Rightarrow> drv_v2" where
  "oled_clear s = oled_clear_loop 0 s"

function oled_fill_loop :: "nat \<Rightarrow> drv_v2 \<Rightarrow> drv_v2" where
  "oled_fill_loop i s = (if i < 1024 then oled_fill_loop (i + 1) (oled_write 0x40 0xFF s) else s)"
  by pat_completeness auto
termination
  by (relation "measure (\<lambda>(i, s). 1024 - i)") auto

declare oled_fill_loop.simps [simp del]

definition oled_fill :: "drv_v2 \<Rightarrow> drv_v2" where
  "oled_fill s = oled_fill_loop 0 s"

text \<open>
  The \<open>ioctl\<close> handlers take the open file, the request code and the argument; they
  return a \<open>long\<close>. Neither handler uses the file.
\<close>

type_synonym struct_file = unit

definition oled_ioctl :: "struct_file \<Rightarrow> u32 \<Rightarrow> nat \<Rightarrow> drv_v2 \<Rightarrow> int \<times> drv_v2" where
  "oled_ioctl f cmd arg s =
     (if cmd = OLED_CLEAR then (0, oled_clear s)
      else if cmd = OLED_FILL then (0, oled_fill s)
      else (- EINVAL, s))"

subsection \<open>Sensor\<close>

definition aht20_trigger :: "drv_v2 \<Rightarrow> int \<times> drv_v2" where
  "aht20_trigger s = (let cmd = [0xAC, 0x33, 0x00] in i2c_master_send (aht20_client s) cmd 3 s)"

text \<open>
  \<open>aht20_read_raw\<close> stores the two raw fields through its pointers \<open>t\<close> and \<open>h\<close> and
  returns 0: the result is (return value, \<open>*t\<close>, \<open>*h\<close>). The return value of
  \<open>i2c_master_recv\<close> is dropped.
\<close>

definition aht20_read_raw :: "drv_v2 \<Rightarrow> (int \<times> u32 \<times> u32) \<times> drv_v2" where
  "aht20_read_raw s =
     (let s = msleep 80 s;
          (_, d, s) = i2c_master_recv (aht20_client s) 6 s;
          h = raw_humidity d;
          t = raw_temperature d
      in ((0, t, h), s))"

text \<open>The results of \<open>aht20_trigger\<close> and \<open>aht20_read_raw\<close> are dropped by \<open>aht20_ioctl\<close>.\<close>

definition aht20_ioctl :: "struct_file \<Rightarrow> u32 \<Rightarrow> nat \<Rightarrow> drv_v2 \<Rightarrow> int \<times> drv_v2" where
  "aht20_ioctl f cmd arg s =
     (if cmd \<noteq> AHT20_READ_DATA then (- EINVAL, s)
      else
        (let (_, s) = aht20_trigger s;
             ((_, rt, rh), s) = aht20_read_raw s;
             data = \<lparr>temperature = scale_temperature rt, humidity = scale_humidity rh\<rparr>;
             (not_copied, s) = copy_to_user arg data s
         in if not_copied \<noteq> 0 then (- EFAULT, s) else (0, s)))"

subsection \<open>Probe callbacks\<close>

definition oled_probe :: "i2c_client \<Rightarrow> drv_v2 \<Rightarrow> int \<times> drv_v2" where
  "oled_probe client s =
     (let s = s\<lparr>oled_client := Ptr client\<rparr>;
          s = oled_init s;
          s = pr_info ''SSD1306 OLED probed'' s
      in (0, s))"

definition aht20_probe_v2 :: "i2c_client \<Rightarrow> drv_v2 \<Rightarrow> int \<times> drv_v2" where
  "aht20_probe_v2 client s =
     (let s = s\<lparr>aht20_client := Ptr client\<rparr>;
          s = pr_info ''AHT20 sensor probed'' s
      in (0, s))"

subsection \<open>Module initialisation\<close>

definition oled_info :: i2c_board_info where
  "oled_info = I2C_BOARD_INFO ''ssd1306'' SSD1306_ADDR"

definition aht20_info :: i2c_board_info where
  "aht20_info = I2C_BOARD_INFO ''aht20'' AHT20_ADDR"

text \<open>
  The results of \<open>i2c_add_driver\<close>, \<open>alloc_chrdev_region\<close> and \<open>cdev_add\<close> are dropped
  by \<open>etx_init\<close>; the three calls are recorded only.
\<close>

definition etx_init :: "drv_v2 \<Rightarrow> int \<times> drv_v2" where
  "etx_init s =
     (let (adap, s) = i2c_get_adapter 1 s;
          s = s\<lparr>i2c_adap := adap\<rparr>
      in if i2c_adap s = NULL then (- ENODEV, s)
         else
           (let (client, s) = i2c_new_client_device (i2c_adap s) oled_info s;
                s = s\<lparr>oled_client := client\<rparr>
            in if IS_ERR (oled_client s) then (PTR_ERR (oled_client s), s)
               else
                 (let (client, s) = i2c_new_client_device (i2c_adap s) aht20_info s;
                      s = s\<lparr>aht20_client := client\<rparr>
                  in if IS_ERR (aht20_client s) then (PTR_ERR (aht20_client s), s)
                     else
                       (let (_, s) = i2c_add_driver ''ssd1306'' oled_probe s;
                            (_, s) = i2c_add_driver ''aht20'' aht20_probe_v2 s;
                            s = emit (Alloc_chrdev_region OLED_DEV_NAME) s;
                            s = emit (Cdev_init OLED_DEV_NAME) s;
                            s = emit (Cdev_add OLED_DEV_NAME) s;
                            s = emit (Alloc_chrdev_region AHT20_DEV_NAME) s;
                            s = emit (Cdev_init AHT20_DEV_NAME) s;
                            s = emit (Cdev_add AHT20_DEV_NAME) s;
                            s = pr_info ''ETX I2C Driver Loaded'' s
                        in (0, s)))))"

section \<open>Example states\<close>

text \<open>
  States at which the theorems below are evaluated. \<open>boot\<close> and \<open>boot_v2\<close> are the
  two modules before their initialisation: nothing recorded, no client device, bus 1
  with an adapter, every user address writable; the errors of client-device creation
  and the answers of the bus are parameters. \<open>running_v2\<close> is version 2.0 after a
  successful initialisation, with both handles set.
\<close>

definition boot :: "(nat \<Rightarrow> int option) \<Rightarrow> (nat \<Rightarrow> int \<times> (nat \<Rightarrow> u8)) \<Rightarrow> drv" where
  "boot errs answers =
     \<lparr>trace = [], xfer = answers, adapter_at = (\<lambda>nr. nr = 1), new_client_err = errs,
      user_writable = (\<lambda>_. True), devices = [], bound = [], user_mem = (\<lambda>_. None),
      etx_i2c_adapter = NULL, etx_i2c_client_oled = NULL, etx_i2c_client_aht = NULL,
      select_device = 0\<rparr>"

definition boot_v2 ::
  "(nat \<Rightarrow> int option) \<Rightarrow> (nat \<Rightarrow> int \<times> (nat \<Rightarrow> u8)) \<Rightarrow> drv_v2" where
  "boot_v2 errs answers =
     \<lparr>trace = [], xfer = answers, adapter_at = (\<lambda>nr. nr = 1), new_client_err = errs,
      user_writable = (\<lambda>_. True), devices = [], bound = [], user_mem = (\<lambda>_. None),
      i2c_adap = NULL, oled_client = NULL, aht20_client = NULL\<rparr>"

text \<open>
  \<open>no_answer\<close>: a bus on which every transfer fails with \<open>-EIO\<close> (-5), as when the
  device is absent; the six bytes are what a receive buffer on the stack then holds.
\<close>

definition no_answer :: "nat \<Rightarrow> int \<times> (nat \<Rightarrow> u8)" where
  "no_answer n = (- 5, (\<lambda>i. if i < 6 then [0xDE, 0xAD, 0xBE, 0xEF, 0x12, 0x34] ! i else 0))"

text \<open>\<open>all_sent\<close>: a bus on which every transfer moves \<open>n\<close> bytes; what is read is 0.\<close>

definition all_sent :: "int \<Rightarrow> nat \<Rightarrow> int \<times> (nat \<Rightarrow> u8)" where
  "all_sent n k = (n, (\<lambda>i. 0))"

definition ssd1306_dev :: i2c_client where
  "ssd1306_dev = \<lparr>client_name = ''ssd1306'', client_addr = 0x3C\<rparr>"

definition aht20_dev :: i2c_client where
  "aht20_dev = \<lparr>client_name = ''aht20'', client_addr = 0x38\<rparr>"

definition running_v2 :: "(nat \<Rightarrow> int \<times> (nat \<Rightarrow> u8)) \<Rightarrow> drv_v2" where
  "running_v2 answers =
     \<lparr>trace = [], xfer = answers, adapter_at = (\<lambda>nr. nr = 1), new_client_err = (\<lambda>_. None),
      user_writable = (\<lambda>_. True), devices = [ssd1306_dev, aht20_dev],
      bound = [ssd1306_dev, aht20_dev], user_mem = (\<lambda>_. None),
      i2c_adap = Ptr 1, oled_client = Ptr ssd1306_dev, aht20_client = Ptr aht20_dev\<rparr>"

section \<open>Decoding of a measurement\<close>

lemma and_0x0F_take_bit: "(x :: u32) AND 0x0F = take_bit 4 x"
  by (simp add: take_bit_eq_mask mask_eq_exp_minus_1)

lemma int_and_15_take_bit: "(k :: int) AND 15 = take_bit 4 k"
  by (simp add: take_bit_eq_mask mask_eq_exp_minus_1)

lemma uint_raw_humidity:
  "uint (raw_humidity d) =
     (push_bit 12 (uint (d ! 1)) OR push_bit 4 (uint (d ! 2)) OR drop_bit 4 (uint (d ! 3)))"
  unfolding raw_humidity_def
  by (rule bit_eqI) (auto simp add: bit_simps dest: bit_imp_le_length)

lemma uint_raw_temperature:
  "uint (raw_temperature d) =
     (push_bit 16 (uint (d ! 3) AND 15) OR push_bit 8 (uint (d ! 4)) OR uint (d ! 5))"
  unfolding raw_temperature_def and_0x0F_take_bit int_and_15_take_bit
  by (rule bit_eqI) (auto simp add: bit_simps dest: bit_imp_le_length)

lemma take_bit_raw_humidity: "take_bit 20 (raw_humidity d) = raw_humidity d"
  unfolding raw_humidity_def
  by (rule bit_eqI) (auto simp add: bit_simps dest: bit_imp_le_length)

lemma take_bit_raw_temperature: "take_bit 20 (raw_temperature d) = raw_temperature d"
  unfolding raw_temperature_def and_0x0F_take_bit
  by (rule bit_eqI) (auto simp add: bit_simps dest: bit_imp_le_length)

lemma take_bit_20_less: "take_bit 20 (w :: u32) = w \<Longrightarrow> uint w < 2 ^ 20"
proof -
  assume a: "take_bit 20 w = w"
  have "uint (take_bit 20 w) < 2 ^ 20"
    by (simp only: unsigned_take_bit_eq take_bit_int_less_exp)
  with a show ?thesis by simp
qed

lemma raw_humidity_less: "uint (raw_humidity d) < 2 ^ 20"
  by (rule take_bit_20_less) (rule take_bit_raw_humidity)

lemma raw_temperature_less: "uint (raw_temperature d) < 2 ^ 20"
  by (rule take_bit_20_less) (rule take_bit_raw_temperature)

text \<open>
  A 20-bit value times a factor of at most 2000 stays below \<open>2 ^ 32\<close>: the unsigned
  product does not wrap, and the unsigned quotient is the quotient of the integers.
\<close>

lemma uint_scaled:
  assumes "uint rw < 2 ^ 20" and "0 < c" and "c \<le> 2000"
  shows "uint ((rw * word_of_int c) div 1048576 :: u32) = uint rw * c div 1048576"
proof -
  have "uint rw * c \<le> 2 ^ 20 * 2000" using assms by (intro mult_mono) simp_all
  then have "uint rw * c < 2 ^ 32" by simp
  moreover have "0 \<le> uint rw * c" using assms by simp
  ultimately have "uint (rw * word_of_int c) = uint rw * c"
    by (simp add: uint_word_ariths uint_word_of_int take_bit_int_eq_self mod_mult_right_eq
             flip: take_bit_eq_mod)
  then show ?thesis by (simp add: uint_div)
qed

lemma sint_small:
  "- (2 ^ 31) \<le> k \<Longrightarrow> k < 2 ^ 31 \<Longrightarrow> sint (word_of_int k :: u32) = k"
  by (simp add: sint_sbintrunc' signed_take_bit_int_eq_self)

lemma sint_scale_humidity:
  assumes "uint rh < 2 ^ 20"
  shows "sint (scale_humidity rh) = uint rh * 1000 div 1048576"
proof -
  let ?k = "uint rh * 1000 div 1048576"
  have "uint (scale_humidity rh) = ?k"
    unfolding scale_humidity_def using uint_scaled [of rh 1000] assms by simp
  moreover have "scale_humidity rh = word_of_int (uint (scale_humidity rh))" by simp
  ultimately have e: "scale_humidity rh = word_of_int ?k" by simp
  have "0 \<le> ?k" by (simp add: div_int_pos_iff)
  moreover have "?k < 1000" using assms by simp
  ultimately have "sint (word_of_int ?k :: u32) = ?k" by (intro sint_small) simp_all
  then show ?thesis using e by simp
qed

lemma sint_scale_temperature:
  assumes "uint rt < 2 ^ 20"
  shows "sint (scale_temperature rt) = uint rt * 2000 div 1048576 - 500"
proof -
  let ?q = "(rt * 2000) div 1048576 :: u32"
  let ?k = "uint rt * 2000 div 1048576"
  have q: "uint ?q = ?k" using uint_scaled [of rt 2000] assms by simp
  have "?q = word_of_int (uint ?q)" by simp
  then have "?q - 500 = word_of_int (?k - 500)" unfolding q by simp
  then have e: "scale_temperature rt = word_of_int (?k - 500)"
    by (simp add: scale_temperature_def)
  have "0 \<le> ?k" by (simp add: div_int_pos_iff)
  moreover have "?k < 2000" using assms by simp
  ultimately have "sint (word_of_int (?k - 500) :: u32) = ?k - 500"
    by (intro sint_small) simp_all
  then show ?thesis using e by simp
qed

text \<open>
  Claim C1. For every 6-byte input, the raw humidity is
  \<open>(byte[1] << 12) | (byte[2] << 4) | (byte[3] >> 4)\<close> and the raw temperature is
  \<open>((byte[3] & 0x0F) << 16) | (byte[4] << 8) | byte[5]\<close>, both 20-bit values; the decoded
  humidity is the integer quotient \<open>raw_humidity * 1000 / 2^20\<close> and the decoded
  temperature is the integer quotient \<open>raw_temperature * 2000 / 2^20\<close> minus 500. All
  of them are functions of the six bytes alone. The quotients are of non-negative
  integers, where rounding down and truncation agree.
\<close>

theorem decode_formula:
  assumes "length d = 6"
  shows "uint (raw_humidity d) =
           (push_bit 12 (uint (d ! 1)) OR push_bit 4 (uint (d ! 2)) OR drop_bit 4 (uint (d ! 3)))
       \<and> uint (raw_humidity d) < 2 ^ 20
       \<and> uint (raw_temperature d) =
           (push_bit 16 (uint (d ! 3) AND 0x0F) OR push_bit 8 (uint (d ! 4)) OR uint (d ! 5))
       \<and> uint (raw_temperature d) < 2 ^ 20
       \<and> sint (snd (decode d)) = (uint (raw_humidity d) * 1000) div 2 ^ 20
       \<and> sint (fst (decode d)) = (uint (raw_temperature d) * 2000) div 2 ^ 20 - 500"
  using uint_raw_humidity [of d] uint_raw_temperature [of d]
    raw_humidity_less [of d] raw_temperature_less [of d]
    sint_scale_humidity [OF raw_humidity_less [of d]]
    sint_scale_temperature [OF raw_temperature_less [of d]]
  by (simp add: decode_def)

theorem decode_formula_witness:
  "length [0x00, 0x19, 0x99, 0x9A, 0x66, 0x66 :: u8] = 6
   \<and> uint (raw_humidity [0x00, 0x19, 0x99, 0x9A, 0x66, 0x66]) = 0x19999
   \<and> uint (raw_temperature [0x00, 0x19, 0x99, 0x9A, 0x66, 0x66]) = 0xA6666
   \<and> sint (snd (decode [0x00, 0x19, 0x99, 0x9A, 0x66, 0x66])) = 99
   \<and> sint (fst (decode [0x00, 0x19, 0x99, 0x9A, 0x66, 0x66])) = 799"
proof -
  have len: "length [0x00, 0x19, 0x99, 0x9A, 0x66, 0x66 :: u8] = 6" by simp
  have rh: "uint (raw_humidity [0x00, 0x19, 0x99, 0x9A, 0x66, 0x66]) = 0x19999"
    by (simp add: raw_humidity_def)
  have rt: "uint (raw_temperature [0x00, 0x19, 0x99, 0x9A, 0x66, 0x66]) = 0xA6666"
    by (simp add: raw_temperature_def)
  show ?thesis using decode_formula [OF len] unfolding rh rt by simp
qed

text \<open>
  Claim C2. For every 20-bit raw temperature, the temperature computed in unsigned
  32-bit arithmetic and read as a signed 32-bit integer lies in \<open>[-500, 1500)\<close>.
\<close>

theorem temperature_range:
  assumes "uint rt < 2 ^ 20"
  shows "- 500 \<le> sint (scale_temperature rt) \<and> sint (scale_temperature rt) < 1500"
proof -
  have "0 \<le> uint rt * 2000 div 1048576" by (simp add: div_int_pos_iff)
  moreover have "uint rt * 2000 div 1048576 < 2000" using assms by simp
  ultimately show ?thesis unfolding sint_scale_temperature [OF assms] by simp
qed

theorem temperature_range_witness:
  "uint (0xFFFFF :: u32) < 2 ^ 20
   \<and> - 500 \<le> sint (scale_temperature 0xFFFFF) \<and> sint (scale_temperature 0xFFFFF) < 1500"
proof -
  have h: "uint (0xFFFFF :: u32) < 2 ^ 20" by simp
  show ?thesis using h temperature_range [OF h] by simp
qed

text \<open>
  Claim C3. For every 20-bit raw humidity, the humidity computed in unsigned 32-bit
  arithmetic lies in \<open>[0, 1000)\<close>, as an unsigned value and as the \<open>int\<close> it is stored in.
\<close>

theorem humidity_range:
  assumes "uint rh < 2 ^ 20"
  shows "0 \<le> sint (scale_humidity rh) \<and> sint (scale_humidity rh) < 1000
         \<and> uint (scale_humidity rh) = sint (scale_humidity rh)"
proof -
  have "0 \<le> uint rh * 1000 div 1048576" by (simp add: div_int_pos_iff)
  moreover have "uint rh * 1000 div 1048576 < 1000" using assms by simp
  moreover have "uint (scale_humidity rh) = uint rh * 1000 div 1048576"
    unfolding scale_humidity_def using uint_scaled [of rh 1000] assms by simp
  ultimately show ?thesis unfolding sint_scale_humidity [OF assms] by simp
qed

theorem humidity_range_witness:
  "uint (0xFFFFF :: u32) < 2 ^ 20
   \<and> 0 \<le> sint (scale_humidity 0xFFFFF) \<and> sint (scale_humidity 0xFFFFF) < 1000
   \<and> uint (scale_humidity 0xFFFFF) = sint (scale_humidity 0xFFFFF)"
proof -
  have h: "uint (0xFFFFF :: u32) < 2 ^ 20" by simp
  show ?thesis using h humidity_range [OF h] by simp
qed

section \<open>What one display write leaves behind\<close>

lemma SSD1306_Write_emit:
  "SSD1306_Write is_cmd data s =
     emit (Master_send (etx_i2c_client_oled s) [if is_cmd then 0x00 else 0x40, data]) s"
  by (simp add: SSD1306_Write_def I2C_Write_def i2c_master_send_def)

lemma oled_write_emit:
  "oled_write mode data s = emit (Master_send (oled_client s) [mode, data]) s"
  by (simp add: oled_write_def i2c_master_send_def)

section \<open>The fill loops\<close>

lemma replicate_step: "i < n \<Longrightarrow> e # replicate (n - Suc i) e = replicate (n - i) e"
  by (simp add: Suc_diff_Suc flip: replicate_Suc)

lemma replicate_step_1024:
  "i < 1024 \<Longrightarrow> e # replicate (1023 - i) e = replicate (1024 - i) e"
proof -
  assume "i < 1024"
  then have "1024 - i = Suc (1023 - i)" by arith
  then show ?thesis by simp
qed

lemma SSD1306_Fill_loop_state:
  "SSD1306_Fill_loop i tot data s =
     s\<lparr>trace := trace s @ replicate (tot - i) (Master_send (etx_i2c_client_oled s) [0x40, data])\<rparr>"
proof (induction i tot data s rule: SSD1306_Fill_loop.induct)
  case (1 i tot data s)
  show ?case
  proof (cases "i < tot")
    case True
    then show ?thesis
      using "1.IH" [OF True]
      by (subst SSD1306_Fill_loop.simps) (simp add: SSD1306_Write_emit emit_def replicate_step)
  next
    case False
    then show ?thesis by (subst SSD1306_Fill_loop.simps) simp
  qed
qed

lemma oled_clear_loop_state:
  "oled_clear_loop i s =
     s\<lparr>trace := trace s @ replicate (1024 - i) (Master_send (oled_client s) [0x40, 0x00])\<rparr>"
proof (induction i s rule: oled_clear_loop.induct)
  case (1 i s)
  show ?case
  proof (cases "i < 1024")
    case True
    then show ?thesis
      using "1.IH" [OF True]
      by (subst oled_clear_loop.simps) (simp add: oled_write_emit emit_def replicate_step_1024)
  next
    case False
    then show ?thesis by (subst oled_clear_loop.simps) simp
  qed
qed

lemma oled_fill_loop_state:
  "oled_fill_loop i s =
     s\<lparr>trace := trace s @ replicate (1024 - i) (Master_send (oled_client s) [0x40, 0xFF])\<rparr>"
proof (induction i s rule: oled_fill_loop.induct)
  case (1 i s)
  show ?case
  proof (cases "i < 1024")
    case True
    then show ?thesis
      using "1.IH" [OF True]
      by (subst oled_fill_loop.simps) (simp add: oled_write_emit emit_def replicate_step_1024)
  next
    case False
    then show ?thesis by (subst oled_fill_loop.simps) simp
  qed
qed

lemma SSD1306_Fill_state:
  "SSD1306_Fill data s =
     s\<lparr>trace := trace s @ replicate 1024 (Master_send (etx_i2c_client_oled s) [0x40, data])\<rparr>"
  by (simp add: SSD1306_Fill_def SSD1306_Fill_loop_state)

lemma oled_clear_state:
  "oled_clear s =
     s\<lparr>trace := trace s @ replicate 1024 (Master_send (oled_client s) [0x40, 0x00])\<rparr>"
  by (simp add: oled_clear_def oled_clear_loop_state)

lemma oled_fill_state:
  "oled_fill s =
     s\<lparr>trace := trace s @ replicate 1024 (Master_send (oled_client s) [0x40, 0xFF])\<rparr>"
  by (simp add: oled_fill_def oled_fill_loop_state)

text \<open>
  Claim C7. For every pattern byte, a fill adds exactly 1024 write transactions to the
  bus, each the data control byte 0x40 followed by the pattern byte, and changes
  nothing else; the number does not depend on the pattern. Clearing is the same
  sequence with pattern 0x00: \<open>oled_clear\<close> in i2c_client_driver.c, and the fill of
  \<open>etx_oled_remove\<close> in i2c_driver.c. \<open>oled_fill\<close> is the sequence with pattern 0xFF.
\<close>

theorem fill_transactions:
  "SSD1306_Fill pattern s =
     s\<lparr>trace := trace s @ replicate 1024 (Master_send (etx_i2c_client_oled s) [0x40, pattern])\<rparr>
   \<and> length (trace (SSD1306_Fill pattern s)) = length (trace s) + 1024
   \<and> etx_oled_remove client s =
     s\<lparr>trace := trace s @ replicate 1024 (Master_send (etx_i2c_client_oled s) [0x40, 0x00])
                   @ [Printk KERN_INFO ''ETX_OLED: Device removed'']\<rparr>
   \<and> oled_fill s2 =
     s2\<lparr>trace := trace s2 @ replicate 1024 (Master_send (oled_client s2) [0x40, 0xFF])\<rparr>
   \<and> oled_clear s2 =
     s2\<lparr>trace := trace s2 @ replicate 1024 (Master_send (oled_client s2) [0x40, 0x00])\<rparr>"
  by (simp add: SSD1306_Fill_state oled_clear_state oled_fill_state etx_oled_remove_def
      pr_info_def printk_def emit_def)

section \<open>Request dispatch\<close>

lemma request_codes:
  "OLED_CLEAR = 0x6F01" "OLED_FILL = 0x6F02" "AHT20_READ_DATA = 0x80086101"
  by (simp_all add: OLED_CLEAR_def OLED_FILL_def AHT20_READ_DATA_def IOC_def)

text \<open>
  Claim C9. A request code that is neither \<open>OLED_CLEAR\<close> nor \<open>OLED_FILL\<close> on the
  display channel, or that is not \<open>AHT20_READ_DATA\<close> on the sensor channel, is answered
  with \<open>-EINVAL\<close> (-22) and leaves the state as it was: no event is recorded, so no bus
  transfer was issued.
\<close>

theorem unknown_request_invalid:
  "(cmd \<noteq> OLED_CLEAR \<and> cmd \<noteq> OLED_FILL \<longrightarrow> oled_ioctl f cmd arg s = (- EINVAL, s))
   \<and> (cmd \<noteq> AHT20_READ_DATA \<longrightarrow> aht20_ioctl f cmd arg s = (- EINVAL, s))
   \<and> EINVAL = 22"
  by (simp add: oled_ioctl_def aht20_ioctl_def EINVAL_def)

theorem unknown_request_invalid_witness:
  "(0x6F03 :: u32) \<noteq> OLED_CLEAR \<and> (0x6F03 :: u32) \<noteq> OLED_FILL
   \<and> (0x6F03 :: u32) \<noteq> AHT20_READ_DATA
   \<and> oled_ioctl () 0x6F03 0 (running_v2 (all_sent 2)) = (- 22, running_v2 (all_sent 2))
   \<and> aht20_ioctl () 0x6F03 0 (running_v2 (all_sent 2)) = (- 22, running_v2 (all_sent 2))"
  using unknown_request_invalid [of "0x6F03" "()" 0 "running_v2 (all_sent 2)"]
  by (simp add: request_codes)

text \<open>
  Claim C10. Every display operation drops the result of the bus send: a write leaves
  the one recorded transfer behind whatever the bus answered, the probe callbacks
  return 0, and a clear or fill request returns 0 after its 1024 writes, for every
  state, hence for every sequence of answers of the bus, all failures included. The
  only results of a display request are 0 and \<open>-EINVAL\<close>.
\<close>

theorem display_send_result_dropped:
  "SSD1306_Write is_cmd data s =
     emit (Master_send (etx_i2c_client_oled s) [if is_cmd then 0x00 else 0x40, data]) s
   \<and> oled_write mode data s2 = emit (Master_send (oled_client s2) [mode, data]) s2
   \<and> fst (etx_oled_probe client s) = 0
   \<and> fst (oled_probe client s2) = 0
   \<and> oled_ioctl f OLED_CLEAR arg s2 =
       (0, s2\<lparr>trace := trace s2 @ replicate 1024 (Master_send (oled_client s2) [0x40, 0x00])\<rparr>)
   \<and> oled_ioctl f OLED_FILL arg s2 =
       (0, s2\<lparr>trace := trace s2 @ replicate 1024 (Master_send (oled_client s2) [0x40, 0xFF])\<rparr>)
   \<and> fst (oled_ioctl f cmd arg s2) \<in> {0, - EINVAL}"
  by (simp add: SSD1306_Write_emit oled_write_emit etx_oled_probe_def oled_probe_def
      oled_ioctl_def oled_clear_state oled_fill_state request_codes Let_def)

section \<open>The probe callbacks\<close>

lemma SSD1306_DisplayInit_state:
  "SSD1306_DisplayInit s =
     s\<lparr>trace := trace s @ Msleep 100 #
        map (\<lambda>b. Master_send (etx_i2c_client_oled s) [0x00, b])
          [0xAE, 0xD5, 0x80, 0xA8, 0x3F, 0xD3, 0x00, 0x40, 0x8D, 0x14, 0x20, 0x00, 0xA1,
           0xC8, 0xDA, 0x12, 0x81, 0x80, 0xD9, 0xF1, 0xDB, 0x20, 0xA4, 0xA6, 0x2E, 0xAF]\<rparr>"
  by (simp add: SSD1306_DisplayInit_def SSD1306_Write_emit msleep_def emit_def)

lemma oled_init_state:
  "oled_init s =
     s\<lparr>trace := trace s @ Msleep 100 #
        map (\<lambda>b. Master_send (oled_client s) [0x00, b]) [0xAE, 0xA8, 0x3F, 0xAF]\<rparr>"
  by (simp add: oled_init_def oled_write_emit msleep_def emit_def)

text \<open>
  Claim C6, as the code has it. The display probe of i2c_driver.c records its message,
  sleeps 100 ms, sends the same 26 command bytes in the same order on every call, each
  after the command control byte 0x00, and then fills the display with 0xFF in 1024
  data writes. The display probe of i2c_client_driver.c sleeps 100 ms, sends the four
  command bytes 0xAE, 0xA8, 0x3F, 0xAF, records its message, and fills nothing. Both
  return 0.
\<close>

theorem display_probe_sequence:
  "etx_oled_probe client s =
     (0, s\<lparr>etx_i2c_client_oled := Ptr client,
           trace := trace s @
             [Printk KERN_INFO ''ETX_OLED: Device probed successfully'', Msleep 100] @
             map (\<lambda>b. Master_send (Ptr client) [0x00, b])
               [0xAE, 0xD5, 0x80, 0xA8, 0x3F, 0xD3, 0x00, 0x40, 0x8D, 0x14, 0x20, 0x00, 0xA1,
                0xC8, 0xDA, 0x12, 0x81, 0x80, 0xD9, 0xF1, 0xDB, 0x20, 0xA4, 0xA6, 0x2E, 0xAF] @
             replicate 1024 (Master_send (Ptr client) [0x40, 0xFF])\<rparr>)
   \<and> oled_probe client s2 =
     (0, s2\<lparr>oled_client := Ptr client,
            trace := trace s2 @ [Msleep 100] @
              map (\<lambda>b. Master_send (Ptr client) [0x00, b]) [0xAE, 0xA8, 0x3F, 0xAF] @
              [Printk KERN_INFO ''SSD1306 OLED probed'']\<rparr>)"
  by (simp add: etx_oled_probe_def oled_probe_def SSD1306_DisplayInit_state SSD1306_Fill_state
      oled_init_state pr_info_def printk_def emit_def)

text \<open>
  Claim C6 as stated fails on i2c_client_driver.c: its display probe, run on the
  module before initialisation, records six events; no charge-pump command (0x8D) and
  no data write of 0xFF is among them.
\<close>

theorem oled_probe_no_fill:
  "trace (snd (oled_probe ssd1306_dev (boot_v2 (\<lambda>_. None) (all_sent 2)))) =
     [Msleep 100,
      Master_send (Ptr ssd1306_dev) [0x00, 0xAE], Master_send (Ptr ssd1306_dev) [0x00, 0xA8],
      Master_send (Ptr ssd1306_dev) [0x00, 0x3F], Master_send (Ptr ssd1306_dev) [0x00, 0xAF],
      Printk KERN_INFO ''SSD1306 OLED probed'']
   \<and> Master_send (Ptr ssd1306_dev) [0x00, 0x8D]
         \<notin> set (trace (snd (oled_probe ssd1306_dev (boot_v2 (\<lambda>_. None) (all_sent 2)))))
   \<and> Master_send (Ptr ssd1306_dev) [0x40, 0xFF]
         \<notin> set (trace (snd (oled_probe ssd1306_dev (boot_v2 (\<lambda>_. None) (all_sent 2)))))"
  by (simp add: oled_probe_def oled_init_state pr_info_def printk_def emit_def boot_v2_def)

lemma AHT20_Init_state:
  "AHT20_Init s =
     (fst (xfer s (length (trace s))),
      s\<lparr>trace := trace s @
         [Master_send (etx_i2c_client_aht s) [0xBE, 0x08, 0x00],
          if fst (xfer s (length (trace s))) < 0
          then Printk KERN_ERR ''AHT20: Initialization failed''
          else Printk KERN_INFO ''AHT20: Initialized successfully'',
          Msleep 40]\<rparr>)"
  by (simp add: AHT20_Init_def i2c_master_send_def pr_err_def pr_info_def printk_def msleep_def
      emit_def)

lemma AHT20_ReadData_trigger_fails:
  assumes "fst (xfer s (length (trace s))) < 0"
  shows "AHT20_ReadData s =
     (Inl (fst (xfer s (length (trace s)))),
      s\<lparr>trace := trace s @
         [Master_send (etx_i2c_client_aht s) [0xAC, 0x33, 0x00],
          Printk KERN_ERR ''AHT20: Trigger measurement failed'']\<rparr>)"
  using assms
  by (simp add: AHT20_ReadData_def i2c_master_send_def pr_err_def printk_def emit_def)

lemma AHT20_ReadData_read_fails:
  assumes "\<not> fst (xfer s (length (trace s))) < 0"
    and "fst (xfer s (length (trace s) + 2)) < 0"
  shows "AHT20_ReadData s =
     (Inl (fst (xfer s (length (trace s) + 2))),
      s\<lparr>trace := trace s @
         [Master_send (etx_i2c_client_aht s) [0xAC, 0x33, 0x00], Msleep 80,
          Master_recv (etx_i2c_client_aht s) 6,
          Printk KERN_ERR ''AHT20: Data read failed'']\<rparr>)"
  using assms
  by (simp add: AHT20_ReadData_def i2c_master_send_def i2c_master_recv_def pr_err_def
      printk_def msleep_def emit_def)

lemma AHT20_ReadData_succeeds:
  assumes "\<not> fst (xfer s (length (trace s))) < 0"
    and "\<not> fst (xfer s (length (trace s) + 2)) < 0"
  shows "AHT20_ReadData s =
     (Inr (decode (map (snd (xfer s (length (trace s) + 2))) [0..<6])),
      s\<lparr>trace := trace s @
         [Master_send (etx_i2c_client_aht s) [0xAC, 0x33, 0x00], Msleep 80,
          Master_recv (etx_i2c_client_aht s) 6,
          Printk KERN_INFO (''AHT20: Temp = %d.%d'' @ [CHR 0xC2, CHR 0xB0] @
                            ''C, RH = %d.%d%%'')]\<rparr>)"
  using assms
  by (simp add: AHT20_ReadData_def i2c_master_send_def i2c_master_recv_def pr_info_def
      printk_def msleep_def emit_def decode_def)

lemma AHT20_ReadData_frame:
  "\<exists>r evs. AHT20_ReadData s = (r, s\<lparr>trace := trace s @ evs\<rparr>)"
proof (cases "fst (xfer s (length (trace s))) < 0")
  case True
  then show ?thesis using AHT20_ReadData_trigger_fails [of s] by blast
next
  case False
  show ?thesis
  proof (cases "fst (xfer s (length (trace s) + 2)) < 0")
    case True
    with False show ?thesis using AHT20_ReadData_read_fails [of s] by blast
  next
    case r: False
    with False show ?thesis using AHT20_ReadData_succeeds [of s] by blast
  qed
qed

lemma aht20_probe_frame:
  "\<exists>evs. aht20_probe client s =
     (0, s\<lparr>etx_i2c_client_aht := Ptr client,
           trace := trace s @
             [Printk KERN_INFO ''AHT20: Device probed successfully'',
              Master_send (Ptr client) [0xBE, 0x08, 0x00],
              if fst (xfer s (Suc (length (trace s)))) < 0
              then Printk KERN_ERR ''AHT20: Initialization failed''
              else Printk KERN_INFO ''AHT20: Initialized successfully'',
              Msleep 40] @ evs\<rparr>)"
proof -
  let ?s1 = "pr_info ''AHT20: Device probed successfully'' (s\<lparr>etx_i2c_client_aht := Ptr client\<rparr>)"
  let ?s2 = "snd (AHT20_Init ?s1)"
  obtain r evs where rd: "AHT20_ReadData ?s2 = (r, ?s2\<lparr>trace := trace ?s2 @ evs\<rparr>)"
    using AHT20_ReadData_frame [of ?s2] by blast
  have "aht20_probe client s = (0, ?s2\<lparr>trace := trace ?s2 @ evs\<rparr>)"
    by (simp add: aht20_probe_def Let_def split_def rd)
  then show ?thesis
    by (intro exI [of _ evs]) (simp add: AHT20_Init_state pr_info_def printk_def emit_def)
qed

text \<open>
  Claim C8, as the code has it. In i2c_driver.c, \<open>AHT20_Init\<close> sends the three bytes
  0xBE, 0x08, 0x00, records a failure of the send as an error message (a success as
  an information message), sleeps 40 ms and returns the result of the send; the
  sensor probe runs it first after its own message and returns 0 whatever the bus
  answered. In i2c_client_driver.c the sensor probe stores the handle, records its
  message and returns 0: it sends nothing and does not sleep.
\<close>

theorem sensor_probe_init:
  "AHT20_Init s =
     (fst (xfer s (length (trace s))),
      s\<lparr>trace := trace s @
         [Master_send (etx_i2c_client_aht s) [0xBE, 0x08, 0x00],
          if fst (xfer s (length (trace s))) < 0
          then Printk KERN_ERR ''AHT20: Initialization failed''
          else Printk KERN_INFO ''AHT20: Initialized successfully'',
          Msleep 40]\<rparr>)
   \<and> fst (aht20_probe client s) = 0
   \<and> (\<exists>evs. trace (snd (aht20_probe client s)) =
         trace s @
         [Printk KERN_INFO ''AHT20: Device probed successfully'',
          Master_send (Ptr client) [0xBE, 0x08, 0x00],
          if fst (xfer s (Suc (length (trace s)))) < 0
          then Printk KERN_ERR ''AHT20: Initialization failed''
          else Printk KERN_INFO ''AHT20: Initialized successfully'',
          Msleep 40] @ evs)
   \<and> aht20_probe_v2 client s2 =
       (0, s2\<lparr>aht20_client := Ptr client,
              trace := trace s2 @ [Printk KERN_INFO ''AHT20 sensor probed'']\<rparr>)"
proof -
  obtain evs where p: "aht20_probe client s =
     (0, s\<lparr>etx_i2c_client_aht := Ptr client,
           trace := trace s @
             [Printk KERN_INFO ''AHT20: Device probed successfully'',
              Master_send (Ptr client) [0xBE, 0x08, 0x00],
              if fst (xfer s (Suc (length (trace s)))) < 0
              then Printk KERN_ERR ''AHT20: Initialization failed''
              else Printk KERN_INFO ''AHT20: Initialized successfully'',
              Msleep 40] @ evs\<rparr>)"
    using aht20_probe_frame [of client s] by blast
  have v2: "aht20_probe_v2 client s2 =
       (0, s2\<lparr>aht20_client := Ptr client,
              trace := trace s2 @ [Printk KERN_INFO ''AHT20 sensor probed'']\<rparr>)"
    by (simp add: aht20_probe_v2_def pr_info_def printk_def emit_def)
  have tr: "\<exists>evs. trace (snd (aht20_probe client s)) =
         trace s @
         [Printk KERN_INFO ''AHT20: Device probed successfully'',
          Master_send (Ptr client) [0xBE, 0x08, 0x00],
          if fst (xfer s (Suc (length (trace s)))) < 0
          then Printk KERN_ERR ''AHT20: Initialization failed''
          else Printk KERN_INFO ''AHT20: Initialized successfully'',
          Msleep 40] @ evs"
    unfolding p by (intro exI [of _ evs]) simp
  have r: "fst (aht20_probe client s) = 0" unfolding p by simp
  show ?thesis using AHT20_Init_state [of s] r tr v2 by blast
qed

text \<open>
  Claim C8 as stated fails on i2c_client_driver.c: its sensor probe, run on the module
  before initialisation, records its message only; neither the initialisation command
  nor the 40 ms delay is among the events.
\<close>

theorem aht20_probe_v2_no_init:
  "trace (snd (aht20_probe_v2 aht20_dev (boot_v2 (\<lambda>_. None) (all_sent 3)))) =
     [Printk KERN_INFO ''AHT20 sensor probed'']
   \<and> Master_send (Ptr aht20_dev) [0xBE, 0x08, 0x00]
         \<notin> set (trace (snd (aht20_probe_v2 aht20_dev (boot_v2 (\<lambda>_. None) (all_sent 3)))))
   \<and> Msleep 40 \<notin> set (trace (snd (aht20_probe_v2 aht20_dev (boot_v2 (\<lambda>_. None) (all_sent 3)))))"
  by (simp add: aht20_probe_v2_def pr_info_def printk_def emit_def boot_v2_def)

section \<open>Reading the sensor\<close>

text \<open>
  \<open>AHT20_ReadData\<close> of i2c_driver.c stops at the first failed transfer, by the three lemmas
  \<open>AHT20_ReadData_trigger_fails\<close>, \<open>AHT20_ReadData_read_fails\<close> and
  \<open>AHT20_ReadData_succeeds\<close> above: a failed trigger ends the call before the delay
  and the read, a failed read ends it before the decoding, each with the errno of the
  failed transfer and no reading; otherwise the reading is that of the six bytes read.
  The same sequence in \<open>aht20_ioctl\<close> of i2c_client_driver.c is: trigger, 80 ms,
  read of 6 bytes, decoding, copy to the caller, whatever the two transfers returned.
\<close>

lemma aht20_ioctl_read_data:
  "aht20_ioctl f AHT20_READ_DATA arg s =
     (let d = map (snd (xfer s (length (trace s) + 2))) [0..<6];
          data = \<lparr>temperature = fst (decode d), humidity = snd (decode d)\<rparr>;
          s' = s\<lparr>trace := trace s @
                 [Master_send (aht20_client s) [0xAC, 0x33, 0x00], Msleep 80,
                  Master_recv (aht20_client s) 6]\<rparr>
      in if user_writable s arg then (0, s'\<lparr>user_mem := (user_mem s)(arg \<mapsto> data)\<rparr>)
         else (- EFAULT, s'))"
  by (simp add: aht20_ioctl_def aht20_trigger_def aht20_read_raw_def i2c_master_send_def
      i2c_master_recv_def copy_to_user_def msleep_def emit_def decode_def Let_def)

text \<open>
  Claim C4 at a failing input, on i2c_client_driver.c. The sensor does not answer: the
  trigger send and the 6-byte read both return -5. \<open>aht20_ioctl\<close> still runs the whole
  sequence, returns 0, and delivers to the caller at address 4096 a reading decoded
  from the stale bytes of its buffer: 138.3 degrees and 67.8 percent.
\<close>

theorem aht20_ioctl_ignores_bus_failure:
  "fst (xfer (running_v2 no_answer) 0) = - 5
   \<and> fst (xfer (running_v2 no_answer) 2) = - 5
   \<and> fst (aht20_ioctl () AHT20_READ_DATA 4096 (running_v2 no_answer)) = 0
   \<and> trace (snd (aht20_ioctl () AHT20_READ_DATA 4096 (running_v2 no_answer))) =
       [Master_send (Ptr aht20_dev) [0xAC, 0x33, 0x00], Msleep 80, Master_recv (Ptr aht20_dev) 6]
   \<and> user_mem (snd (aht20_ioctl () AHT20_READ_DATA 4096 (running_v2 no_answer))) 4096 =
       Some \<lparr>temperature = 1383, humidity = 678\<rparr>"
  by (simp add: aht20_ioctl_read_data running_v2_def no_answer_def decode_def
      raw_humidity_def raw_temperature_def scale_humidity_def scale_temperature_def)

section \<open>Module initialisation\<close>

text \<open>What the sensor probe of i2c_driver.c leaves of the state, whatever the bus answers.\<close>

lemma aht20_probe_fields:
  "fst (aht20_probe client s) = 0"
  "devices (snd (aht20_probe client s)) = devices s"
  "bound (snd (aht20_probe client s)) = bound s"
  "new_client_err (snd (aht20_probe client s)) = new_client_err s"
  "etx_i2c_adapter (snd (aht20_probe client s)) = etx_i2c_adapter s"
  "etx_i2c_client_oled (snd (aht20_probe client s)) = etx_i2c_client_oled s"
  "etx_i2c_client_aht (snd (aht20_probe client s)) = Ptr client"
  "select_device (snd (aht20_probe client s)) = select_device s"
proof -
  obtain evs where "aht20_probe client s =
     (0, s\<lparr>etx_i2c_client_aht := Ptr client, trace := trace s @ evs\<rparr>)"
    using aht20_probe_frame [of client s] by blast
  then show
    "fst (aht20_probe client s) = 0"
    "devices (snd (aht20_probe client s)) = devices s"
    "bound (snd (aht20_probe client s)) = bound s"
    "new_client_err (snd (aht20_probe client s)) = new_client_err s"
    "etx_i2c_adapter (snd (aht20_probe client s)) = etx_i2c_adapter s"
    "etx_i2c_client_oled (snd (aht20_probe client s)) = etx_i2c_client_oled s"
    "etx_i2c_client_aht (snd (aht20_probe client s)) = Ptr client"
    "select_device (snd (aht20_probe client s)) = select_device s"
    by simp_all
qed

lemma etx_oled_probe_state:
  "etx_oled_probe client s =
     (0, s\<lparr>etx_i2c_client_oled := Ptr client,
           trace := trace s @
             [Printk KERN_INFO ''ETX_OLED: Device probed successfully'', Msleep 100] @
             map (\<lambda>b. Master_send (Ptr client) [0x00, b])
               [0xAE, 0xD5, 0x80, 0xA8, 0x3F, 0xD3, 0x00, 0x40, 0x8D, 0x14, 0x20, 0x00, 0xA1,
                0xC8, 0xDA, 0x12, 0x81, 0x80, 0xD9, 0xF1, 0xDB, 0x20, 0xA4, 0xA6, 0x2E, 0xAF] @
             replicate 1024 (Master_send (Ptr client) [0x40, 0xFF])\<rparr>)"
  by (simp add: etx_oled_probe_def SSD1306_DisplayInit_state SSD1306_Fill_state
      pr_info_def printk_def emit_def)

lemma etx_driver_init_display_fails:
  assumes "select_device s = 0" and "adapter_at s 1" and "devices s = []" and "bound s = []"
    and "new_client_err s 0x3C = Some e" and "- 4095 \<le> e" and "e < 0"
    and "new_client_err s 0x38 = None"
  shows "fst (etx_driver_init s) = 0"
    and "devices (snd (etx_driver_init s)) =
           [\<lparr>client_name = AHT20_DEVICE_NAME, client_addr = AHT20_SLAVE_ADDR\<rparr>]"
    and "bound (snd (etx_driver_init s)) =
           [\<lparr>client_name = AHT20_DEVICE_NAME, client_addr = AHT20_SLAVE_ADDR\<rparr>]"
    and "etx_i2c_client_aht (snd (etx_driver_init s)) =
           Ptr \<lparr>client_name = AHT20_DEVICE_NAME, client_addr = AHT20_SLAVE_ADDR\<rparr>"
    and "etx_i2c_client_oled (snd (etx_driver_init s)) = etx_i2c_client_oled s"
  using assms
  by (simp_all add: etx_driver_init_def i2c_get_adapter_def i2c_new_client_device_def
      i2c_add_driver_def i2c_put_adapter_def pr_info_def pr_err_def printk_def emit_def
      I2C_BUS_AVAILABLE_def oled_i2c_board_info_def aht20_i2c_board_info_def I2C_BOARD_INFO_def
      SSD1306_SLAVE_ADDR_def AHT20_SLAVE_ADDR_def IS_ERR_def aht20_probe_fields
      Let_def split_def)

lemma etx_driver_init_sensor_fails:
  assumes "select_device s = 0" and "adapter_at s 1" and "devices s = []" and "bound s = []"
    and "new_client_err s 0x3C = None"
    and "new_client_err s 0x38 = Some e" and "- 4095 \<le> e" and "e < 0"
  shows "fst (etx_driver_init s) = 0"
    and "devices (snd (etx_driver_init s)) =
           [\<lparr>client_name = SLAVE_DEVICE_NAME, client_addr = SSD1306_SLAVE_ADDR\<rparr>]"
    and "bound (snd (etx_driver_init s)) =
           [\<lparr>client_name = SLAVE_DEVICE_NAME, client_addr = SSD1306_SLAVE_ADDR\<rparr>]"
    and "etx_i2c_client_oled (snd (etx_driver_init s)) =
           Ptr \<lparr>client_name = SLAVE_DEVICE_NAME, client_addr = SSD1306_SLAVE_ADDR\<rparr>"
    and "etx_i2c_client_aht (snd (etx_driver_init s)) = etx_i2c_client_aht s"
  using assms
  by (simp_all add: etx_driver_init_def i2c_get_adapter_def i2c_new_client_device_def
      i2c_add_driver_def i2c_put_adapter_def pr_info_def pr_err_def printk_def emit_def
      I2C_BUS_AVAILABLE_def oled_i2c_board_info_def aht20_i2c_board_info_def I2C_BOARD_INFO_def
      SSD1306_SLAVE_ADDR_def AHT20_SLAVE_ADDR_def IS_ERR_def etx_oled_probe_state
      Let_def split_def)

lemma etx_init_display_fails:
  assumes "adapter_at s 1" and "new_client_err s 0x3C = Some e" and "- 4095 \<le> e" and "e < 0"
  shows "etx_init s =
     (e, s\<lparr>i2c_adap := Ptr 1, oled_client := ERR_PTR e,
           trace := trace s @ [Get_adapter 1, New_client_device (Ptr 1) oled_info]\<rparr>)"
  using assms
  by (simp add: etx_init_def i2c_get_adapter_def i2c_new_client_device_def emit_def
      oled_info_def I2C_BOARD_INFO_def SSD1306_ADDR_def IS_ERR_def PTR_ERR_def Let_def)

lemma etx_init_sensor_fails:
  assumes "adapter_at s 1" and "new_client_err s 0x3C = None"
    and "new_client_err s 0x38 = Some e" and "- 4095 \<le> e" and "e < 0"
  shows "etx_init s =
     (e, s\<lparr>i2c_adap := Ptr 1, oled_client := Ptr \<lparr>client_name = ''ssd1306'', client_addr = 0x3C\<rparr>,
           aht20_client := ERR_PTR e,
           devices := devices s @ [\<lparr>client_name = ''ssd1306'', client_addr = 0x3C\<rparr>],
           trace := trace s @ [Get_adapter 1, New_client_device (Ptr 1) oled_info,
                               New_client_device (Ptr 1) aht20_info]\<rparr>)"
  using assms
  by (simp add: etx_init_def i2c_get_adapter_def i2c_new_client_device_def emit_def
      oled_info_def aht20_info_def I2C_BOARD_INFO_def SSD1306_ADDR_def AHT20_ADDR_def
      IS_ERR_def PTR_ERR_def Let_def)

text \<open>
  Claim C5, as the code has it. A creation error is an errno \<open>e\<close> with
  \<open>-4095 \<le> e < 0\<close>. In i2c_driver.c, loaded with both devices selected on a bus
  with an adapter and no client device yet: when the creation of the display client
  fails and that of the sensor client succeeds, \<open>etx_driver_init\<close> returns 0 with the
  sensor client created, probed and bound and its handle stored; and the same with the
  two devices exchanged. In i2c_client_driver.c, \<open>etx_init\<close> returns the errno of the
  first creation that fails and stops there: no driver is added and no device is bound;
  after a failure of the display client the sensor client is not even created.
\<close>

theorem startup_partial_failure:
  "(select_device s = 0 \<and> adapter_at s 1 \<and> devices s = [] \<and> bound s = []
      \<and> new_client_err s 0x3C = Some e \<and> - 4095 \<le> e \<and> e < 0 \<and> new_client_err s 0x38 = None
    \<longrightarrow> fst (etx_driver_init s) = 0
      \<and> devices (snd (etx_driver_init s)) =
            [\<lparr>client_name = AHT20_DEVICE_NAME, client_addr = AHT20_SLAVE_ADDR\<rparr>]
      \<and> bound (snd (etx_driver_init s)) =
            [\<lparr>client_name = AHT20_DEVICE_NAME, client_addr = AHT20_SLAVE_ADDR\<rparr>]
      \<and> etx_i2c_client_aht (snd (etx_driver_init s)) =
            Ptr \<lparr>client_name = AHT20_DEVICE_NAME, client_addr = AHT20_SLAVE_ADDR\<rparr>)
   \<and> (select_device s = 0 \<and> adapter_at s 1 \<and> devices s = [] \<and> bound s = []
      \<and> new_client_err s 0x3C = None \<and> new_client_err s 0x38 = Some e \<and> - 4095 \<le> e \<and> e < 0
    \<longrightarrow> fst (etx_driver_init s) = 0
      \<and> devices (snd (etx_driver_init s)) =
            [\<lparr>client_name = SLAVE_DEVICE_NAME, client_addr = SSD1306_SLAVE_ADDR\<rparr>]
      \<and> bound (snd (etx_driver_init s)) =
            [\<lparr>client_name = SLAVE_DEVICE_NAME, client_addr = SSD1306_SLAVE_ADDR\<rparr>]
      \<and> etx_i2c_client_oled (snd (etx_driver_init s)) =
            Ptr \<lparr>client_name = SLAVE_DEVICE_NAME, client_addr = SSD1306_SLAVE_ADDR\<rparr>)
   \<and> (adapter_at s2 1 \<and> new_client_err s2 0x3C = Some e \<and> - 4095 \<le> e \<and> e < 0
    \<longrightarrow> etx_init s2 =
          (e, s2\<lparr>i2c_adap := Ptr 1, oled_client := ERR_PTR e,
                 trace := trace s2 @ [Get_adapter 1, New_client_device (Ptr 1) oled_info]\<rparr>))
   \<and> (adapter_at s2 1 \<and> new_client_err s2 0x3C = None
      \<and> new_client_err s2 0x38 = Some e \<and> - 4095 \<le> e \<and> e < 0
    \<longrightarrow> etx_init s2 =
          (e, s2\<lparr>i2c_adap := Ptr 1,
                 oled_client := Ptr \<lparr>client_name = ''ssd1306'', client_addr = 0x3C\<rparr>,
                 aht20_client := ERR_PTR e,
                 devices := devices s2 @ [\<lparr>client_name = ''ssd1306'', client_addr = 0x3C\<rparr>],
                 trace := trace s2 @ [Get_adapter 1, New_client_device (Ptr 1) oled_info,
                                      New_client_device (Ptr 1) aht20_info]\<rparr>))"
proof (intro conjI impI; elim conjE)
  note a = etx_driver_init_display_fails [of s e]
  note b = etx_driver_init_sensor_fails [of s e]
  {
    assume "select_device s = 0" "adapter_at s 1" "devices s = []" "bound s = []"
      "new_client_err s 0x3C = Some e" "- 4095 \<le> e" "e < 0" "new_client_err s 0x38 = None"
    note h = this
    show "fst (etx_driver_init s) = 0" by (rule a(1) [OF h])
    show "devices (snd (etx_driver_init s)) =
            [\<lparr>client_name = AHT20_DEVICE_NAME, client_addr = AHT20_SLAVE_ADDR\<rparr>]"
      by (rule a(2) [OF h])
    show "bound (snd (etx_driver_init s)) =
            [\<lparr>client_name = AHT20_DEVICE_NAME, client_addr = AHT20_SLAVE_ADDR\<rparr>]"
      by (rule a(3) [OF h])
    show "etx_i2c_client_aht (snd (etx_driver_init s)) =
            Ptr \<lparr>client_name = AHT20_DEVICE_NAME, client_addr = AHT20_SLAVE_ADDR\<rparr>"
      by (rule a(4) [OF h])
  }
  {
    assume "select_device s = 0" "adapter_at s 1" "devices s = []" "bound s = []"
      "new_client_err s 0x3C = None" "new_client_err s 0x38 = Some e" "- 4095 \<le> e" "e < 0"
    note h = this
    show "fst (etx_driver_init s) = 0" by (rule b(1) [OF h])
    show "devices (snd (etx_driver_init s)) =
            [\<lparr>client_name = SLAVE_DEVICE_NAME, client_addr = SSD1306_SLAVE_ADDR\<rparr>]"
      by (rule b(2) [OF h])
    show "bound (snd (etx_driver_init s)) =
            [\<lparr>client_name = SLAVE_DEVICE_NAME, client_addr = SSD1306_SLAVE_ADDR\<rparr>]"
      by (rule b(3) [OF h])
    show "etx_i2c_client_oled (snd (etx_driver_init s)) =
            Ptr \<lparr>client_name = SLAVE_DEVICE_NAME, client_addr = SSD1306_SLAVE_ADDR\<rparr>"
      by (rule b(4) [OF h])
  }
  {
    assume "adapter_at s2 1" "new_client_err s2 0x3C = Some e" "- 4095 \<le> e" "e < 0"
    then show "etx_init s2 =
          (e, s2\<lparr>i2c_adap := Ptr 1, oled_client := ERR_PTR e,
                 trace := trace s2 @ [Get_adapter 1, New_client_device (Ptr 1) oled_info]\<rparr>)"
      by (rule etx_init_display_fails)
  }
  {
    assume "adapter_at s2 1" "new_client_err s2 0x3C = None"
      "new_client_err s2 0x38 = Some e" "- 4095 \<le> e" "e < 0"
    then show "etx_init s2 =
          (e, s2\<lparr>i2c_adap := Ptr 1,
                 oled_client := Ptr \<lparr>client_name = ''ssd1306'', client_addr = 0x3C\<rparr>,
                 aht20_client := ERR_PTR e,
                 devices := devices s2 @ [\<lparr>client_name = ''ssd1306'', client_addr = 0x3C\<rparr>],
                 trace := trace s2 @ [Get_adapter 1, New_client_device (Ptr 1) oled_info,
                                      New_client_device (Ptr 1) aht20_info]\<rparr>)"
      by (rule etx_init_sensor_fails)
  }
qed

text \<open>
  Claim C5 as stated fails on i2c_client_driver.c. Both devices are to be registered
  and the creation of the display client fails with \<open>-EBUSY\<close> (-16): \<open>etx_init\<close>
  returns -16 after two kernel calls; the sensor client is not created, no driver is
  added, nothing is bound.
\<close>

theorem etx_init_stops_at_first_failure:
  "fst (etx_init (boot_v2 (\<lambda>a. if a = 0x3C then Some (- 16) else None) (all_sent 2))) = - 16
   \<and> trace (snd (etx_init (boot_v2 (\<lambda>a. if a = 0x3C then Some (- 16) else None) (all_sent 2)))) =
       [Get_adapter 1, New_client_device (Ptr 1) oled_info]
   \<and> devices (snd (etx_init (boot_v2 (\<lambda>a. if a = 0x3C then Some (- 16) else None) (all_sent 2)))) = []
   \<and> bound (snd (etx_init (boot_v2 (\<lambda>a. if a = 0x3C then Some (- 16) else None) (all_sent 2)))) = []
   \<and> aht20_client (snd (etx_init (boot_v2 (\<lambda>a. if a = 0x3C then Some (- 16) else None) (all_sent 2)))) = NULL"
  by (simp add: etx_init_def i2c_get_adapter_def i2c_new_client_device_def emit_def
      oled_info_def I2C_BOARD_INFO_def SSD1306_ADDR_def IS_ERR_def PTR_ERR_def Let_def
      boot_v2_def)

theorem startup_partial_failure_witness:
  "select_device (boot (\<lambda>a. if a = 0x3C then Some (- 16) else None) no_answer) = 0
   \<and> adapter_at (boot (\<lambda>a. if a = 0x3C then Some (- 16) else None) no_answer) 1
   \<and> new_client_err (boot (\<lambda>a. if a = 0x3C then Some (- 16) else None) no_answer) 0x3C = Some (- 16)
   \<and> new_client_err (boot (\<lambda>a. if a = 0x3C then Some (- 16) else None) no_answer) 0x38 = None
   \<and> fst (etx_driver_init (boot (\<lambda>a. if a = 0x3C then Some (- 16) else None) no_answer)) = 0
   \<and> bound (snd (etx_driver_init (boot (\<lambda>a. if a = 0x3C then Some (- 16) else None) no_answer))) =
        [\<lparr>client_name = ''AHT20_SENSOR'', client_addr = 0x38\<rparr>]
   \<and> new_client_err (boot (\<lambda>a. if a = 0x38 then Some (- 16) else None) no_answer) 0x3C = None
   \<and> new_client_err (boot (\<lambda>a. if a = 0x38 then Some (- 16) else None) no_answer) 0x38 = Some (- 16)
   \<and> fst (etx_driver_init (boot (\<lambda>a. if a = 0x38 then Some (- 16) else None) no_answer)) = 0
   \<and> bound (snd (etx_driver_init (boot (\<lambda>a. if a = 0x38 then Some (- 16) else None) no_answer))) =
        [\<lparr>client_name = ''ETX_OLED'', client_addr = 0x3C\<rparr>]
   \<and> fst (etx_init (boot_v2 (\<lambda>a. if a = 0x3C then Some (- 16) else None) no_answer)) = - 16
   \<and> bound (snd (etx_init (boot_v2 (\<lambda>a. if a = 0x3C then Some (- 16) else None) no_answer))) = []
   \<and> fst (etx_init (boot_v2 (\<lambda>a. if a = 0x38 then Some (- 16) else None) no_answer)) = - 16
   \<and> bound (snd (etx_init (boot_v2 (\<lambda>a. if a = 0x38 then Some (- 16) else None) no_answer))) = []"
  using
    startup_partial_failure [of "boot (\<lambda>a. if a = 0x3C then Some (- 16) else None) no_answer" "- 16"
      "boot_v2 (\<lambda>a. if a = 0x3C then Some (- 16) else None) no_answer"]
    startup_partial_failure [of "boot (\<lambda>a. if a = 0x38 then Some (- 16) else None) no_answer" "- 16"
      "boot_v2 (\<lambda>a. if a = 0x38 then Some (- 16) else None) no_answer"]
  by (simp add: boot_def boot_v2_def AHT20_DEVICE_NAME_def AHT20_SLAVE_ADDR_def
      SLAVE_DEVICE_NAME_def SSD1306_SLAVE_ADDR_def)

end
